theory Spec2Isabelle
  imports Main
begin

section \<open>Data model (types/index.d.ts)\<close>

text \<open>
  Strings are byte strings: a JavaScript string is represented by its UTF-8 encoding, which
  is what both percent-encoders used below work on. A \<open>Date\<close> is the number of
  milliseconds it denotes. Optional fields (\<open>email?\<close>, \<open>reality?\<close>, ...) are
  \<open>option\<close>s. Field names follow the source; where two interfaces share a field name
  the later one carries a suffix.
\<close>

datatype Protocol = vless | vmess | trojan | shadowsocks | hysteria2

datatype Transport = tcp | ws | grpc | http

datatype TLSType = tls | reality | none

record User =
  id_u :: string
  name :: string
  email :: "string option"
  createdAt :: int
  expiresAt :: "int option"
  enabled :: bool
  trafficLimit :: nat
  trafficUsed :: nat

record RealityConfig =
  dest :: string
  serverNames :: "string list"
  privateKey :: string
  publicKey :: string
  shortIds :: "string list"

record InboundConfig =
  tag :: string
  protocol :: Protocol
  listen :: string
  port :: nat
  transport :: "Transport option"
  tlsType :: TLSType
  reality_i :: "RealityConfig option"

record DNSConfig =
  servers :: "string list"
  useSystemDns :: bool

record ServerConfig =
  host :: string
  inbounds :: "InboundConfig list"
  dns :: "DNSConfig option"
  logLevel :: string

text \<open>The \<open>manual\<close> map of a client descriptor, with the nine keys the generator writes.\<close>

record Manual =
  address :: string
  port_m :: nat
  uuid_m :: string
  flow_m :: string
  security :: string
  sni :: string
  fingerprint :: string
  publicKey_m :: string
  shortId :: string

record ClientConfig =
  userId :: string
  protocol_c :: Protocol
  uri :: string
  manual :: Manual

record ManagerState =
  version :: nat
  server :: ServerConfig
  users :: "User list"
  clientConfigs :: "ClientConfig list"

subsection \<open>Sing-box native format\<close>

record SingboxUser =
  uuid :: string
  name_sb :: string
  flow :: string

record SingboxReality =
  enabled_r :: bool
  handshake_server :: string
  handshake_server_port :: nat
  private_key :: string
  short_id :: "string list"

record SingboxTls =
  enabled_t :: bool
  server_name :: "string option"
  reality_t :: SingboxReality

record SingboxInbound =
  type_sb :: Protocol
  tag_sb :: string
  listen_sb :: string
  listen_port :: nat
  users_sb :: "SingboxUser list"
  tls_sb :: "SingboxTls option"

record SingboxDnsServer =
  tag_d :: string
  address_d :: string

record SingboxOutbound =
  type_o :: string
  tag_o :: string

record SingboxConfig =
  log_level :: string
  log_timestamp :: bool
  dns_servers :: "SingboxDnsServer list option"
  inbounds_sb :: "SingboxInbound list"
  outbounds :: "SingboxOutbound list"

text \<open>
  Exceptions of the source: \<open>Error msg\<close> is \<open>throw new Error(msg)\<close>,
  \<open>TypeError\<close> is the engine's error on reading a property of \<open>undefined\<close>,
  \<open>ENOENT\<close> is \<open>readFile\<close> on a missing file.
\<close>

datatype js_error = Error string | TypeError | ENOENT

section \<open>String rendering and percent-encoding\<close>

text \<open>Template-literal rendering of a non-negative integer: its decimal digits.\<close>

definition digit_char :: "nat \<Rightarrow> char" where
  "digit_char d = ''0123456789'' ! d"

fun show_nat :: "nat \<Rightarrow> string" where
  "show_nat n = (if n < 10 then [digit_char n] else show_nat (n div 10) @ [digit_char (n mod 10)])"

declare show_nat.simps [simp del]

definition alnum :: string where
  "alnum = ''ABCDEFGHIJKLMNOPQRSTUVWXYZabcdefghijklmnopqrstuvwxyz0123456789''"

definition hex_digit :: "nat \<Rightarrow> char" where
  "hex_digit d = ''0123456789ABCDEF'' ! d"

definition percent_byte :: "char \<Rightarrow> string" where
  "percent_byte c = [CHR ''%'', hex_digit ((of_char c :: nat) div 16), hex_digit ((of_char c :: nat) mod 16)]"

text \<open>
  \<open>encodeURIComponent\<close>: letters, digits and \<open>- _ . ! ~ * ' ( )\<close> are kept, every other
  byte of the UTF-8 encoding becomes \<open>%XX\<close>.
\<close>

definition uri_unreserved :: "char \<Rightarrow> bool" where
  "uri_unreserved c \<longleftrightarrow> c \<in> set alnum \<or> c \<in> set (''-_.!~*()'' @ [CHR 0x27])"

definition encodeURIComponent :: "string \<Rightarrow> string" where
  "encodeURIComponent s = concat (map (\<lambda>c. if uri_unreserved c then [c] else percent_byte c) s)"

text \<open>
  \<open>URLSearchParams.prototype.toString\<close> (the application/x-www-form-urlencoded
  serializer): letters, digits and \<open>* - . _\<close> are kept, a space becomes \<open>+\<close>, every other
  byte becomes \<open>%XX\<close>; pairs are written \<open>name=value\<close> and joined with \<open>&\<close> in insertion
  order.
\<close>

definition form_unreserved :: "char \<Rightarrow> bool" where
  "form_unreserved c \<longleftrightarrow> c \<in> set alnum \<or> c \<in> set ''*-._''"

definition form_encode_char :: "char \<Rightarrow> string" where
  "form_encode_char c =
     (if c = CHR '' '' then ''+'' else if form_unreserved c then [c] else percent_byte c)"

definition form_urlencode :: "string \<Rightarrow> string" where
  "form_urlencode s = concat (map form_encode_char s)"

fun join_amp :: "string list \<Rightarrow> string" where
  "join_amp [] = []"
| "join_amp [p] = p"
| "join_amp (p # q # ps) = p @ ''&'' @ join_amp (q # ps)"

definition URLSearchParams_toString :: "(string \<times> string) list \<Rightarrow> string" where
  "URLSearchParams_toString ps =
     join_amp (map (\<lambda>(k, v). form_urlencode k @ ''='' @ form_urlencode v) ps)"

text \<open>
  \<open>xs[0]\<close> converted to a string, as the \<open>URLSearchParams\<close> constructor does with each
  value: an empty array gives \<open>undefined\<close>, which becomes the text "undefined".
\<close>

definition first_as_string :: "string list \<Rightarrow> string" where
  "first_as_string xs = (case xs of [] \<Rightarrow> ''undefined'' | x # _ \<Rightarrow> x)"

text \<open>\<open>xs[0] || ''\<close>: an empty array (and an empty first element) gives the empty string.\<close>

definition first_or_empty :: "string list \<Rightarrow> string" where
  "first_or_empty xs = (case xs of [] \<Rightarrow> [] | x # _ \<Rightarrow> x)"

section \<open>Config generator (core/config-generator.js)\<close>

definition compileUser :: "User \<Rightarrow> SingboxUser" where
  "compileUser u = \<lparr>uuid = id_u u, name_sb = name u, flow = ''xtls-rprx-vision''\<rparr>"

definition compileTls :: "InboundConfig \<Rightarrow> SingboxTls option" where
  "compileTls inbound =
     (case reality_i inbound of
        None \<Rightarrow> None
      | Some r \<Rightarrow>
          if tlsType inbound = reality then
            Some \<lparr>enabled_t = True,
                  server_name = (case serverNames r of [] \<Rightarrow> None | s # _ \<Rightarrow> Some s),
                  reality_t = \<lparr>enabled_r = True, handshake_server = dest r,
                               handshake_server_port = 443, private_key = privateKey r,
                               short_id = shortIds r\<rparr>\<rparr>
          else None)"

definition compileInbound :: "User list \<Rightarrow> InboundConfig \<Rightarrow> SingboxInbound" where
  "compileInbound us inbound =
     \<lparr>type_sb = protocol inbound, tag_sb = tag inbound, listen_sb = listen inbound,
      listen_port = port inbound,
      users_sb = map compileUser (filter enabled us),
      tls_sb = compileTls inbound\<rparr>"

definition compileDns :: "string list \<Rightarrow> SingboxDnsServer list" where
  "compileDns ss =
     map (\<lambda>(i, s). \<lparr>tag_d = ''dns-'' @ show_nat i, address_d = s\<rparr>) (enumerate 0 ss)"

definition toSingboxConfig :: "ServerConfig \<Rightarrow> User list \<Rightarrow> SingboxConfig" where
  "toSingboxConfig serverConfig us =
     \<lparr>log_level = logLevel serverConfig, log_timestamp = True,
      dns_servers = map_option (\<lambda>d. compileDns (servers d)) (dns serverConfig),
      inbounds_sb = map (compileInbound us) (inbounds serverConfig),
      outbounds = [\<lparr>type_o = ''direct'', tag_o = ''direct''\<rparr>,
                   \<lparr>type_o = ''block'', tag_o = ''block''\<rparr>]\<rparr>"

definition vlessParams :: "RealityConfig \<Rightarrow> (string \<times> string) list" where
  "vlessParams r =
     [(''type'', ''tcp''),
      (''security'', ''reality''),
      (''pbk'', publicKey r),
      (''fp'', ''chrome''),
      (''sni'', first_as_string (serverNames r)),
      (''sid'', first_as_string (shortIds r)),
      (''flow'', ''xtls-rprx-vision'')]"

definition generateVlessUri :: "User \<Rightarrow> ServerConfig \<Rightarrow> InboundConfig \<Rightarrow> js_error + string" where
  "generateVlessUri user serverConfig inbound =
     (if protocol inbound \<noteq> vless \<or> tlsType inbound \<noteq> reality
      then Inl (Error ''Only VLESS+Reality is supported'')
      else case reality_i inbound of
             None \<Rightarrow> Inl TypeError
           | Some r \<Rightarrow>
               Inr (''vless://'' @ id_u user @ ''@'' @ host serverConfig @ '':'' @
                    show_nat (port inbound) @ ''?'' @ URLSearchParams_toString (vlessParams r) @
                    ''#'' @ encodeURIComponent (name user)))"

definition manualOf :: "User \<Rightarrow> ServerConfig \<Rightarrow> InboundConfig \<Rightarrow> Manual" where
  "manualOf user serverConfig inbound =
     \<lparr>address = host serverConfig,
      port_m = port inbound,
      uuid_m = id_u user,
      flow_m = ''xtls-rprx-vision'',
      security = ''reality'',
      sni = (case reality_i inbound of None \<Rightarrow> [] | Some r \<Rightarrow> first_or_empty (serverNames r)),
      fingerprint = ''chrome'',
      publicKey_m = (case reality_i inbound of None \<Rightarrow> [] | Some r \<Rightarrow> publicKey r),
      shortId = (case reality_i inbound of None \<Rightarrow> [] | Some r \<Rightarrow> first_or_empty (shortIds r))\<rparr>"

definition clientConfigOf :: "User \<Rightarrow> ServerConfig \<Rightarrow> InboundConfig \<Rightarrow> js_error + ClientConfig" where
  "clientConfigOf user serverConfig inbound =
     (case generateVlessUri user serverConfig inbound of
        Inl e \<Rightarrow> Inl e
      | Inr u \<Rightarrow> Inr \<lparr>userId = id_u user, protocol_c = protocol inbound, uri = u,
                       manual = manualOf user serverConfig inbound\<rparr>)"

text \<open>\<open>Array.prototype.map\<close> with a callback that may throw: the first exception ends it.\<close>

fun mapThrowing :: "('a \<Rightarrow> js_error + 'b) \<Rightarrow> 'a list \<Rightarrow> js_error + 'b list" where
  "mapThrowing f [] = Inr []"
| "mapThrowing f (x # xs) =
     (case f x of
        Inl e \<Rightarrow> Inl e
      | Inr y \<Rightarrow> (case mapThrowing f xs of Inl e \<Rightarrow> Inl e | Inr ys \<Rightarrow> Inr (y # ys)))"

definition generateClientConfig :: "User \<Rightarrow> ServerConfig \<Rightarrow> js_error + ClientConfig list" where
  "generateClientConfig user serverConfig =
     mapThrowing (clientConfigOf user serverConfig) (inbounds serverConfig)"

text \<open>The inbounds for which \<open>generateVlessUri\<close> gets past its guard and finds a reality block.\<close>

definition supported :: "InboundConfig \<Rightarrow> bool" where
  "supported inbound \<longleftrightarrow>
     protocol inbound = vless \<and> tlsType inbound = reality \<and> reality_i inbound \<noteq> None"

section \<open>Roster manager (core/user-manager.js)\<close>

text \<open>
  A \<open>Runtime\<close> is what an operation can read and write: the in-memory state
  (\<open>this.state\<close> of a \<open>UserManager\<close>, the module variable \<open>state\<close> of the HTTP
  service), the state file and the compiled configuration file (\<open>None\<close> when the file does
  not exist). A file holds the value whose JSON text was written to it. Writing a file is
  taken to succeed; reading a missing file throws. Values drawn from the environment (a
  generated UUID, the clock, the generated key pair, the random short ids) are arguments.
\<close>

record Runtime =
  state :: ManagerState
  stateFile :: "ManagerState option"
  configFile :: "SingboxConfig option"

record KeyPair =
  privateKey_k :: string
  publicKey_k :: string

record AddUserOptions =
  email_o :: "string option"
  expiresAt_o :: "int option"
  trafficLimit_o :: "nat option"

definition DEFAULT_REALITY_TARGETS :: "string list" where
  "DEFAULT_REALITY_TARGETS = [''www.google.com'', ''www.microsoft.com'', ''www.apple.com'', ''www.amazon.com'']"

text \<open>\<open>generateShortIds(count)\<close>: \<open>count\<close> draws of \<open>generateShortId()\<close>, the k-th draw being \<open>rnd k\<close>.\<close>

definition generateShortIds :: "nat \<Rightarrow> (nat \<Rightarrow> string) \<Rightarrow> string list" where
  "generateShortIds count rnd = map rnd [0..<count]"

definition generateRealityConfig :: "string option \<Rightarrow> KeyPair \<Rightarrow> (nat \<Rightarrow> string) \<Rightarrow> RealityConfig" where
  "generateRealityConfig dest_arg kp rnd =
     (let target = (case dest_arg of
                      None \<Rightarrow> DEFAULT_REALITY_TARGETS ! 0
                    | Some d \<Rightarrow> if d = [] then DEFAULT_REALITY_TARGETS ! 0 else d)
      in \<lparr>dest = target, serverNames = [target], privateKey = privateKey_k kp,
           publicKey = publicKey_k kp, shortIds = generateShortIds 4 rnd\<rparr>)"

definition generateDefaultServerConfig :: "string \<Rightarrow> nat option \<Rightarrow> KeyPair \<Rightarrow> (nat \<Rightarrow> string) \<Rightarrow> ServerConfig" where
  "generateDefaultServerConfig h port_arg kp rnd =
     \<lparr>host = h,
      inbounds = [\<lparr>tag = ''vless-reality'', protocol = vless, listen = ''0.0.0.0'',
                   port = (case port_arg of None \<Rightarrow> 443 | Some p \<Rightarrow> p),
                   transport = None, tlsType = reality,
                   reality_i = Some (generateRealityConfig None kp rnd)\<rparr>],
      dns = Some \<lparr>servers = [''8.8.8.8'', ''1.1.1.1''], useSystemDns = False\<rparr>,
      logLevel = ''info''\<rparr>"

definition emptyState :: ManagerState where
  "emptyState =
     \<lparr>version = 1,
      server = \<lparr>host = [], inbounds = [], dns = None, logLevel = ''info''\<rparr>,
      users = [], clientConfigs = []\<rparr>"

text \<open>The constructor: the default state in memory, the files as they are on disk.\<close>

definition newUserManager :: "ManagerState option \<Rightarrow> SingboxConfig option \<Rightarrow> Runtime" where
  "newUserManager sf cf = \<lparr>state = emptyState, stateFile = sf, configFile = cf\<rparr>"

definition reviveDates :: "User \<Rightarrow> User" where
  "reviveDates u =
     u\<lparr>createdAt := createdAt u,
       expiresAt := (case expiresAt u of None \<Rightarrow> None | Some t \<Rightarrow> Some t)\<rparr>"

definition loadState :: "Runtime \<Rightarrow> js_error + Runtime" where
  "loadState m =
     (case stateFile m of
        None \<Rightarrow> Inl ENOENT
      | Some st \<Rightarrow> Inr (m\<lparr>state := st\<lparr>users := map reviveDates (users st)\<rparr>\<rparr>))"

definition saveState :: "Runtime \<Rightarrow> Runtime" where
  "saveState m = m\<lparr>stateFile := Some (state m)\<rparr>"

definition regenerateConfig :: "Runtime \<Rightarrow> Runtime" where
  "regenerateConfig m =
     m\<lparr>configFile := Some (toSingboxConfig (server (state m)) (users (state m)))\<rparr>"

definition initialize :: "Runtime \<Rightarrow> string \<Rightarrow> nat option \<Rightarrow> KeyPair \<Rightarrow> (nat \<Rightarrow> string) \<Rightarrow> js_error + Runtime" where
  "initialize m h port_arg kp rnd =
     (if stateFile m \<noteq> None then loadState m
      else Inr (regenerateConfig (saveState
             (m\<lparr>state := (state m)\<lparr>server := generateDefaultServerConfig h port_arg kp rnd\<rparr>\<rparr>))))"

text \<open>\<open>Array.prototype.findIndex\<close>: the first index whose element satisfies the predicate.\<close>

fun findIndex :: "('a \<Rightarrow> bool) \<Rightarrow> 'a list \<Rightarrow> nat option" where
  "findIndex P [] = None"
| "findIndex P (x # xs) = (if P x then Some 0 else map_option Suc (findIndex P xs))"

definition newUser :: "string \<Rightarrow> AddUserOptions option \<Rightarrow> string \<Rightarrow> int \<Rightarrow> User" where
  "newUser nm options new_id now =
     \<lparr>id_u = new_id, name = nm,
      email = (case options of None \<Rightarrow> None | Some opt \<Rightarrow> email_o opt),
      createdAt = now,
      expiresAt = (case options of None \<Rightarrow> None | Some opt \<Rightarrow> expiresAt_o opt),
      enabled = True,
      trafficLimit = (case options of None \<Rightarrow> 0
                      | Some opt \<Rightarrow> (case trafficLimit_o opt of None \<Rightarrow> 0 | Some l \<Rightarrow> l)),
      trafficUsed = 0\<rparr>"

text \<open>
  \<open>addUser\<close> returns the exception or the created user with its descriptors, together
  with the runtime it leaves behind: an exception thrown by \<open>generateClientConfig\<close> comes
  after the user was pushed onto the in-memory roster.
\<close>

definition addUser :: "Runtime \<Rightarrow> string \<Rightarrow> AddUserOptions option \<Rightarrow> string \<Rightarrow> int \<Rightarrow>
    (js_error + User \<times> ClientConfig list) \<times> Runtime" where
  "addUser m nm options new_id now =
     (if list_ex (\<lambda>u. name u = nm) (users (state m))
      then (Inl (Error (''User '' @ [CHR 0x22] @ nm @ [CHR 0x22] @ '' already exists'')), m)
      else
        let user = newUser nm options new_id now;
            m1 = m\<lparr>state := (state m)\<lparr>users := users (state m) @ [user]\<rparr>\<rparr>
        in case generateClientConfig user (server (state m1)) of
             Inl e \<Rightarrow> (Inl e, m1)
           | Inr configs \<Rightarrow>
               (Inr (user, configs),
                regenerateConfig (saveState
                  (m1\<lparr>state := (state m1)\<lparr>clientConfigs := clientConfigs (state m1) @ configs\<rparr>\<rparr>))))"

definition matches :: "string \<Rightarrow> User \<Rightarrow> bool" where
  "matches nameOrId u \<longleftrightarrow> name u = nameOrId \<or> id_u u = nameOrId"

definition removeUser :: "Runtime \<Rightarrow> string \<Rightarrow> bool \<times> Runtime" where
  "removeUser m nameOrId =
     (case findIndex (matches nameOrId) (users (state m)) of
        None \<Rightarrow> (False, m)
      | Some index \<Rightarrow>
          let user = users (state m) ! index
          in (True,
              regenerateConfig (saveState
                (m\<lparr>state := (state m)
                     \<lparr>users := take index (users (state m)) @ drop (Suc index) (users (state m)),
                      clientConfigs := filter (\<lambda>c. userId c \<noteq> id_u user) (clientConfigs (state m))\<rparr>\<rparr>))))"

text \<open>
  \<open>setUserEnabled\<close> assigns to the \<open>enabled\<close> field of the object \<open>find\<close> returns, which
  is the first matching element of the roster array.
\<close>

definition setUserEnabled :: "Runtime \<Rightarrow> string \<Rightarrow> bool \<Rightarrow> bool \<times> Runtime" where
  "setUserEnabled m nameOrId en =
     (case findIndex (matches nameOrId) (users (state m)) of
        None \<Rightarrow> (False, m)
      | Some index \<Rightarrow>
          (True,
           regenerateConfig (saveState
             (m\<lparr>state := (state m)
                  \<lparr>users := (users (state m))[index := (users (state m) ! index)\<lparr>enabled := en\<rparr>]\<rparr>\<rparr>))))"

definition getUsers :: "Runtime \<Rightarrow> User list" where
  "getUsers m = users (state m)"

definition getUser :: "Runtime \<Rightarrow> string \<Rightarrow> User option" where
  "getUser m nameOrId = find (matches nameOrId) (users (state m))"

definition getClientConfigs :: "Runtime \<Rightarrow> string \<Rightarrow> ClientConfig list" where
  "getClientConfigs m nameOrId =
     (case getUser m nameOrId of
        None \<Rightarrow> []
      | Some user \<Rightarrow> filter (\<lambda>c. userId c = id_u user) (clientConfigs (state m)))"

definition getServerConfig :: "Runtime \<Rightarrow> ServerConfig" where
  "getServerConfig m = server (state m)"

definition getPublicKey :: "Runtime \<Rightarrow> string option" where
  "getPublicKey m =
     (case find (\<lambda>i. tlsType i = reality) (inbounds (server (state m))) of
        None \<Rightarrow> None
      | Some inbound \<Rightarrow> map_option publicKey (reality_i inbound))"

definition exportUserConfig :: "Runtime \<Rightarrow> string \<Rightarrow> string option" where
  "exportUserConfig m nameOrId =
     (case getClientConfigs m nameOrId of [] \<Rightarrow> None | c # _ \<Rightarrow> Some (uri c))"

record Stats =
  totalUsers :: nat
  activeUsers :: nat
  disabledUsers :: nat

definition getStats :: "Runtime \<Rightarrow> Stats" where
  "getStats m =
     \<lparr>totalUsers = length (users (state m)),
      activeUsers = length (filter enabled (users (state m))),
      disabledUsers = length (filter (\<lambda>u. \<not> enabled u) (users (state m)))\<rparr>"

section \<open>Command line (cli/index.ts)\<close>

text \<open>
  A command ends by \<open>process.exit(code)\<close> after an error message, by an exception nobody
  catches, or normally.
\<close>

datatype cli_outcome = CliExit nat string | CliUncaught js_error | CliDone

definition cli_user_add :: "Runtime \<Rightarrow> string \<Rightarrow> AddUserOptions option \<Rightarrow> string \<Rightarrow> int \<Rightarrow>
    cli_outcome \<times> Runtime" where
  "cli_user_add m nm options new_id now =
     (case loadState m of
        Inl e \<Rightarrow> (CliExit 1 (''Manager not initialized. Run '' @ [CHR 0x22] @
                              ''singbox-manager init'' @ [CHR 0x22] @ '' first.''), m)
      | Inr m1 \<Rightarrow>
          (case addUser m1 nm options new_id now of
             (Inl e, m2) \<Rightarrow> (CliUncaught e, m2)
           | (Inr r, m2) \<Rightarrow> (CliDone, m2)))"

definition cli_user_remove :: "Runtime \<Rightarrow> string \<Rightarrow> cli_outcome \<times> Runtime" where
  "cli_user_remove m nm =
     (case loadState m of
        Inl e \<Rightarrow> (CliExit 1 ''Manager not initialized.'', m)
      | Inr m1 \<Rightarrow>
          (case removeUser m1 nm of
             (False, m2) \<Rightarrow> (CliExit 1 [], m2)
           | (True, m2) \<Rightarrow> (CliDone, m2)))"

definition cli_user_list :: "Runtime \<Rightarrow> cli_outcome \<times> Runtime" where
  "cli_user_list m =
     (case loadState m of
        Inl e \<Rightarrow> (CliExit 1 ''Manager not initialized.'', m)
      | Inr m1 \<Rightarrow> (CliDone, m1))"

definition cli_user_show :: "Runtime \<Rightarrow> string \<Rightarrow> cli_outcome \<times> Runtime" where
  "cli_user_show m nm =
     (case loadState m of
        Inl e \<Rightarrow> (CliExit 1 ''Manager not initialized.'', m)
      | Inr m1 \<Rightarrow>
          (case getUser m1 nm of
             None \<Rightarrow> (CliExit 1 (''User '' @ [CHR 0x22] @ nm @ [CHR 0x22] @ '' not found''), m1)
           | Some user \<Rightarrow> (CliDone, m1)))"

section \<open>HTTP service (server.ts)\<close>

text \<open>
  The handlers work on the module variable \<open>state\<close> and the files at \<open>STATE_PATH\<close> and
  \<open>CONFIG_PATH\<close>. A response is a status code and a JSON body. Signalling and restarting
  the sing-box process is not part of the model.
\<close>

datatype http_body =
    ErrorBody string
  | UserCreated string string "ClientConfig list"
  | Success
  | SuccessMessage string

definition updateSingboxConfig :: "Runtime \<Rightarrow> Runtime" where
  "updateSingboxConfig m =
     m\<lparr>configFile := Some (toSingboxConfig (server (state m)) (users (state m)))\<rparr>"

text \<open>\<open>POST /api/users\<close>; \<open>name_arg\<close> is the \<open>name\<close> member of the parsed request body.\<close>

definition http_post_users :: "Runtime \<Rightarrow> string option \<Rightarrow> string \<Rightarrow> int \<Rightarrow> (nat \<times> http_body) \<times> Runtime" where
  "http_post_users m name_arg new_id now =
     (case name_arg of
        None \<Rightarrow> ((400, ErrorBody ''Name is required''), m)
      | Some nm \<Rightarrow>
          if nm = [] then ((400, ErrorBody ''Name is required''), m)
          else
            let user = \<lparr>id_u = new_id, name = nm, email = None, createdAt = now,
                        expiresAt = None, enabled = True, trafficLimit = 0, trafficUsed = 0\<rparr>;
                m1 = updateSingboxConfig (saveState
                       (m\<lparr>state := (state m)\<lparr>users := users (state m) @ [user]\<rparr>\<rparr>))
            in case generateClientConfig user (server (state m1)) of
                 Inl e \<Rightarrow> ((500, ErrorBody ''Internal server error''), m1)
               | Inr configs \<Rightarrow> ((200, UserCreated (id_u user) (name user) configs), m1))"

text \<open>\<open>DELETE /api/users/:id\<close>; \<open>user_id\<close> is the fourth segment of the request path.\<close>

definition http_delete_user :: "Runtime \<Rightarrow> string \<Rightarrow> (nat \<times> http_body) \<times> Runtime" where
  "http_delete_user m user_id =
     (case findIndex (\<lambda>u. id_u u = user_id) (users (state m)) of
        None \<Rightarrow> ((404, ErrorBody ''User not found''), m)
      | Some index \<Rightarrow>
          ((200, Success),
           updateSingboxConfig (saveState
             (m\<lparr>state := (state m)
                  \<lparr>users := take index (users (state m)) @ drop (Suc index) (users (state m))\<rparr>\<rparr>))))"

text \<open>
  \<open>POST /api/reset\<close>; \<open>env_host\<close> is \<open>process.env.SERVER_HOST\<close> and \<open>env_port\<close> the
  number \<open>parseInt\<close> reads from \<open>process.env.SERVER_PORT || '443'\<close>.
\<close>

definition http_reset :: "Runtime \<Rightarrow> string option \<Rightarrow> nat \<Rightarrow> KeyPair \<Rightarrow> (nat \<Rightarrow> string) \<Rightarrow>
    (nat \<times> http_body) \<times> Runtime" where
  "http_reset m env_host env_port kp rnd =
     (let h = (case env_host of None \<Rightarrow> ''0.0.0.0'' | Some s \<Rightarrow> if s = [] then ''0.0.0.0'' else s);
          m1 = m\<lparr>state := (state m)\<lparr>server := generateDefaultServerConfig h (Some env_port) kp rnd\<rparr>\<rparr>;
          m2 = m1\<lparr>state := (state m1)\<lparr>users := []\<rparr>\<rparr>
      in ((200, SuccessMessage ''Server reset, new keys generated''),
          updateSingboxConfig (saveState m2)))"

section \<open>Sample values\<close>

definition ex_reality :: RealityConfig where
  "ex_reality =
     \<lparr>dest = ''www.google.com'', serverNames = [''www.google.com''],
      privateKey = ''cHJpdmF0ZS1rZXk'', publicKey = ''cHVibGljLWtleQ'',
      shortIds = [''0a1b2c3d'', ''deadbeef'']\<rparr>"

definition ex_inbound :: InboundConfig where
  "ex_inbound =
     \<lparr>tag = ''vless-reality'', protocol = vless, listen = ''0.0.0.0'', port = 443,
      transport = None, tlsType = reality, reality_i = Some ex_reality\<rparr>"

definition ex_server :: ServerConfig where
  "ex_server =
     \<lparr>host = ''203.0.113.5'', inbounds = [ex_inbound],
      dns = Some \<lparr>servers = [''8.8.8.8'', ''1.1.1.1''], useSystemDns = False\<rparr>,
      logLevel = ''info''\<rparr>"

definition ex_alice :: User where
  "ex_alice =
     \<lparr>id_u = ''a1'', name = ''alice'', email = None, createdAt = 1000, expiresAt = None,
      enabled = True, trafficLimit = 0, trafficUsed = 0\<rparr>"

definition ex_bob :: User where
  "ex_bob =
     \<lparr>id_u = ''b2'', name = ''bob'', email = None, createdAt = 2000, expiresAt = None,
      enabled = False, trafficLimit = 0, trafficUsed = 0\<rparr>"

definition ex_carol :: User where
  "ex_carol =
     \<lparr>id_u = ''c3'', name = ''carol d'', email = None, createdAt = 3000, expiresAt = None,
      enabled = True, trafficLimit = 0, trafficUsed = 0\<rparr>"

definition ex_inbound_vmess :: InboundConfig where
  "ex_inbound_vmess = ex_inbound\<lparr>protocol := vmess\<rparr>"

definition ex_server_mixed :: ServerConfig where
  "ex_server_mixed = ex_server\<lparr>inbounds := [ex_inbound, ex_inbound_vmess]\<rparr>"

definition ex_desc_alice :: ClientConfig where
  "ex_desc_alice =
     \<lparr>userId = ''a1'', protocol_c = vless,
      uri = ''vless://a1@203.0.113.5:443?type=tcp&security=reality&pbk=cHVibGljLWtleQ&fp=chrome&sni=www.google.com&sid=0a1b2c3d&flow=xtls-rprx-vision#alice'',
      manual = manualOf ex_alice ex_server ex_inbound\<rparr>"

definition ex_desc_bob :: ClientConfig where
  "ex_desc_bob =
     \<lparr>userId = ''b2'', protocol_c = vless,
      uri = ''vless://b2@203.0.113.5:443?type=tcp&security=reality&pbk=cHVibGljLWtleQ&fp=chrome&sni=www.google.com&sid=0a1b2c3d&flow=xtls-rprx-vision#bob'',
      manual = manualOf ex_bob ex_server ex_inbound\<rparr>"

definition ex_state :: ManagerState where
  "ex_state =
     \<lparr>version = 1, server = ex_server, users = [ex_alice, ex_bob],
      clientConfigs = [ex_desc_alice, ex_desc_bob]\<rparr>"

definition ex_runtime :: Runtime where
  "ex_runtime =
     \<lparr>state = ex_state, stateFile = Some ex_state,
      configFile = Some (toSingboxConfig ex_server [ex_alice, ex_bob])\<rparr>"

definition ex_keys :: KeyPair where
  "ex_keys = \<lparr>privateKey_k = ''bmV3LXByaXZhdGU'', publicKey_k = ''bmV3LXB1YmxpYw''\<rparr>"

definition ex_rnd :: "nat \<Rightarrow> string" where
  "ex_rnd k = ''5eed000'' @ show_nat k"

section \<open>Compilation of the roster\<close>

text \<open>
  C1. In the configuration compiled by \<open>toSingboxConfig\<close> there is one native inbound per
  configured inbound, and the user list of every one of them is the roster restricted to the
  users with \<open>enabled = true\<close>, in roster order, each entry made of the user's id as
  \<open>uuid\<close>, the user's name and the flow "xtls-rprx-vision". Every entry comes from an
  enabled user, so a disabled user contributes none.
\<close>

theorem toSingboxConfig_users:
  "length (inbounds_sb (toSingboxConfig serverConfig us)) = length (inbounds serverConfig) \<and>
   (\<forall>ib \<in> set (inbounds_sb (toSingboxConfig serverConfig us)).
      users_sb ib =
        map (\<lambda>u. \<lparr>uuid = id_u u, name_sb = name u, flow = ''xtls-rprx-vision''\<rparr>)
            (filter enabled us) \<and>
      (\<forall>e \<in> set (users_sb ib). \<exists>u \<in> set us.
          enabled u \<and> uuid e = id_u u \<and> name_sb e = name u \<and> flow e = ''xtls-rprx-vision''))"
proof -
  have m: "map compileUser (filter enabled us) =
           map (\<lambda>u. \<lparr>uuid = id_u u, name_sb = name u, flow = ''xtls-rprx-vision''\<rparr>)
               (filter enabled us)"
    by (simp add: compileUser_def)
  show ?thesis
    unfolding toSingboxConfig_def compileInbound_def
    using m by auto
qed

theorem toSingboxConfig_users_witness:
  "map users_sb (inbounds_sb (toSingboxConfig ex_server [ex_alice, ex_bob, ex_carol])) =
     [[\<lparr>uuid = ''a1'', name_sb = ''alice'', flow = ''xtls-rprx-vision''\<rparr>,
       \<lparr>uuid = ''c3'', name_sb = ''carol d'', flow = ''xtls-rprx-vision''\<rparr>]]"
proof -
  have len: "inbounds_sb (toSingboxConfig ex_server [ex_alice, ex_bob, ex_carol]) =
             [compileInbound [ex_alice, ex_bob, ex_carol] ex_inbound]"
    by (simp add: toSingboxConfig_def ex_server_def)
  have f: "filter enabled [ex_alice, ex_bob, ex_carol] = [ex_alice, ex_carol]"
    by (simp add: ex_alice_def ex_bob_def ex_carol_def)
  from toSingboxConfig_users [of ex_server "[ex_alice, ex_bob, ex_carol]"]
  have "users_sb (compileInbound [ex_alice, ex_bob, ex_carol] ex_inbound) =
        map (\<lambda>u. \<lparr>uuid = id_u u, name_sb = name u, flow = ''xtls-rprx-vision''\<rparr>)
            (filter enabled [ex_alice, ex_bob, ex_carol])"
    unfolding len by simp
  then show ?thesis
    unfolding len f by (simp add: ex_alice_def ex_carol_def)
qed


section \<open>Connection URIs\<close>

lemma form_unreserved_not_space: "form_unreserved c \<Longrightarrow> c \<noteq> CHR '' ''"
  by (auto simp: form_unreserved_def alnum_def)

lemma form_urlencode_safe: "list_all form_unreserved s \<Longrightarrow> form_urlencode s = s"
  by (induction s) (auto simp: form_urlencode_def form_encode_char_def dest: form_unreserved_not_space)

lemma form_urlencode_keys:
  "form_urlencode ''type'' = ''type''" "form_urlencode ''tcp'' = ''tcp''"
  "form_urlencode ''security'' = ''security''" "form_urlencode ''reality'' = ''reality''"
  "form_urlencode ''pbk'' = ''pbk''" "form_urlencode ''fp'' = ''fp''"
  "form_urlencode ''chrome'' = ''chrome''" "form_urlencode ''sni'' = ''sni''"
  "form_urlencode ''sid'' = ''sid''" "form_urlencode ''flow'' = ''flow''"
  "form_urlencode ''xtls-rprx-vision'' = ''xtls-rprx-vision''"
  by code_simp+

lemma URLSearchParams_vlessParams:
  "URLSearchParams_toString (vlessParams r) =
     ''type=tcp&security=reality&pbk='' @ form_urlencode (publicKey r) @
     ''&fp=chrome&sni='' @ form_urlencode (first_as_string (serverNames r)) @
     ''&sid='' @ form_urlencode (first_as_string (shortIds r)) @ ''&flow=xtls-rprx-vision''"
  by (simp add: URLSearchParams_toString_def vlessParams_def form_urlencode_keys)

lemma generateVlessUri_supported:
  assumes "protocol inbound = vless" and "tlsType inbound = reality"
    and "reality_i inbound = Some r"
  shows "generateVlessUri user serverConfig inbound =
     Inr (''vless://'' @ id_u user @ ''@'' @ host serverConfig @ '':'' @ show_nat (port inbound) @
          ''?type=tcp&security=reality&pbk='' @ form_urlencode (publicKey r) @
          ''&fp=chrome&sni='' @ form_urlencode (first_as_string (serverNames r)) @
          ''&sid='' @ form_urlencode (first_as_string (shortIds r)) @
          ''&flow=xtls-rprx-vision#'' @ encodeURIComponent (name user))"
  using assms by (simp add: generateVlessUri_def URLSearchParams_vlessParams)

text \<open>
  C3. For an inbound with protocol vless and tlsType reality, carrying its reality block
  with a first server name and a first short id, where the public key, that server name and
  that short id are written with letters, digits and \<open>* - . _\<close> only (as base64url keys,
  host names and hexadecimal short ids are), \<open>generateVlessUri\<close> returns exactly
  \<open>vless://<id>@<host>:<port>?type=tcp&security=reality&pbk=<publicKey>&fp=chrome&sni=<serverNames[0]>&sid=<shortIds[0]>&flow=xtls-rprx-vision#<percent-encoded name>\<close>,
  with the query parameters in this order. The result is a function of the three arguments
  alone, so equal arguments give equal strings.
\<close>

theorem generateVlessUri_canonical:
  assumes "protocol inbound = vless" and "tlsType inbound = reality"
    and "reality_i inbound = Some r"
    and "serverNames r = sn # sns" and "shortIds r = sid # sids"
    and "list_all form_unreserved (publicKey r)"
    and "list_all form_unreserved sn" and "list_all form_unreserved sid"
  shows "generateVlessUri user serverConfig inbound =
     Inr (''vless://'' @ id_u user @ ''@'' @ host serverConfig @ '':'' @ show_nat (port inbound) @
          ''?type=tcp&security=reality&pbk='' @ publicKey r @
          ''&fp=chrome&sni='' @ sn @
          ''&sid='' @ sid @
          ''&flow=xtls-rprx-vision#'' @ encodeURIComponent (name user))"
  using generateVlessUri_supported [OF assms(1-3), of user serverConfig] assms(4-8)
  by (simp add: first_as_string_def form_urlencode_safe)

theorem generateVlessUri_canonical_witness:
  "generateVlessUri ex_carol ex_server ex_inbound =
     Inr ''vless://c3@203.0.113.5:443?type=tcp&security=reality&pbk=cHVibGljLWtleQ&fp=chrome&sni=www.google.com&sid=0a1b2c3d&flow=xtls-rprx-vision#carol%20d''"
proof -
  have a: "protocol ex_inbound = vless" "tlsType ex_inbound = reality"
    "reality_i ex_inbound = Some ex_reality"
    by (simp_all add: ex_inbound_def)
  have b: "serverNames ex_reality = ''www.google.com'' # []"
    "shortIds ex_reality = ''0a1b2c3d'' # [''deadbeef'']"
    by (simp_all add: ex_reality_def)
  have c: "list_all form_unreserved (publicKey ex_reality)"
    "list_all form_unreserved ''www.google.com''" "list_all form_unreserved ''0a1b2c3d''"
    by code_simp+
  have d: "''vless://'' @ id_u ex_carol @ ''@'' @ host ex_server @ '':'' @ show_nat (port ex_inbound) @
          ''?type=tcp&security=reality&pbk='' @ publicKey ex_reality @
          ''&fp=chrome&sni='' @ ''www.google.com'' @
          ''&sid='' @ ''0a1b2c3d'' @
          ''&flow=xtls-rprx-vision#'' @ encodeURIComponent (name ex_carol) =
       ''vless://c3@203.0.113.5:443?type=tcp&security=reality&pbk=cHVibGljLWtleQ&fp=chrome&sni=www.google.com&sid=0a1b2c3d&flow=xtls-rprx-vision#carol%20d''"
    by code_simp
  from generateVlessUri_canonical [OF a b c, of ex_carol ex_server]
  show ?thesis
    by (simp only: d)
qed

text \<open>
  C4. When the inbound's protocol is not vless or its tlsType is not reality,
  \<open>generateVlessUri\<close> throws the error "Only VLESS+Reality is supported" and returns no
  string; whenever it returns a URI, the protocol is vless and the tlsType is reality.
\<close>

theorem generateVlessUri_unsupported:
  "(protocol inbound \<noteq> vless \<or> tlsType inbound \<noteq> reality \<longrightarrow>
      generateVlessUri user serverConfig inbound = Inl (Error ''Only VLESS+Reality is supported'')) \<and>
   (\<forall>s. generateVlessUri user serverConfig inbound = Inr s \<longrightarrow>
      protocol inbound = vless \<and> tlsType inbound = reality)"
  by (auto simp: generateVlessUri_def split: if_splits)

theorem generateVlessUri_unsupported_witness:
  "protocol ex_inbound_vmess \<noteq> vless \<and>
   generateVlessUri ex_alice ex_server ex_inbound_vmess = Inl (Error ''Only VLESS+Reality is supported'') \<and>
   generateVlessUri ex_alice ex_server ex_inbound = Inr ''vless://a1@203.0.113.5:443?type=tcp&security=reality&pbk=cHVibGljLWtleQ&fp=chrome&sni=www.google.com&sid=0a1b2c3d&flow=xtls-rprx-vision#alice'' \<and>
   protocol ex_inbound = vless \<and> tlsType ex_inbound = reality"
proof -
  have a: "protocol ex_inbound_vmess \<noteq> vless"
    by (simp add: ex_inbound_vmess_def ex_inbound_def)
  have b: "generateVlessUri ex_alice ex_server ex_inbound = Inr ''vless://a1@203.0.113.5:443?type=tcp&security=reality&pbk=cHVibGljLWtleQ&fp=chrome&sni=www.google.com&sid=0a1b2c3d&flow=xtls-rprx-vision#alice''"
    by code_simp
  from generateVlessUri_unsupported [of ex_inbound_vmess ex_alice ex_server] a
       generateVlessUri_unsupported [of ex_inbound ex_alice ex_server] b
  show ?thesis by blast
qed



section \<open>Client descriptors\<close>

lemma mapThrowing_Inr:
  "(\<forall>x \<in> set xs. \<exists>y. f x = Inr y) \<Longrightarrow>
   \<exists>ys. mapThrowing f xs = Inr ys \<and> length ys = length xs \<and>
        (\<forall>k < length xs. f (xs ! k) = Inr (ys ! k))"
proof (induction xs)
  case Nil
  then show ?case by simp
next
  case (Cons x xs)
  from Cons.prems obtain y where y: "f x = Inr y" by auto
  from Cons obtain ys where ys: "mapThrowing f xs = Inr ys" "length ys = length xs"
    "\<forall>k < length xs. f (xs ! k) = Inr (ys ! k)" by auto
  have "\<forall>k < length (x # xs). f ((x # xs) ! k) = Inr ((y # ys) ! k)"
    using y ys(3) by (auto simp: nth_Cons split: nat.splits)
  with y ys(1,2) show ?case by simp
qed

lemma mapThrowing_Inl:
  "x \<in> set xs \<Longrightarrow> f x = Inl e \<Longrightarrow> \<exists>e'. mapThrowing f xs = Inl e'"
  by (induction xs) (auto split: sum.splits)

lemma clientConfigOf_supported:
  assumes "protocol inbound = vless" "tlsType inbound = reality" "reality_i inbound = Some r"
  shows "\<exists>c. clientConfigOf user serverConfig inbound = Inr c"
  using generateVlessUri_supported [OF assms, of user serverConfig]
  by (simp add: clientConfigOf_def)

lemma clientConfigOf_fields:
  assumes "clientConfigOf user serverConfig inbound = Inr c"
  shows "userId c = id_u user" "protocol_c c = protocol inbound"
    "manual c = manualOf user serverConfig inbound"
    "generateVlessUri user serverConfig inbound = Inr (uri c)"
  using assms by (auto simp: clientConfigOf_def split: sum.splits)

lemma clientConfigOf_uri_manual:
  assumes c: "clientConfigOf user serverConfig inbound = Inr c"
    and r: "reality_i inbound = Some r"
    and ne: "serverNames r \<noteq> []" "shortIds r \<noteq> []"
  shows "uri c =
      ''vless://'' @ uuid_m (manual c) @ ''@'' @ address (manual c) @ '':'' @
      show_nat (port_m (manual c)) @
      ''?type=tcp&security='' @ security (manual c) @
      ''&pbk='' @ form_urlencode (publicKey_m (manual c)) @
      ''&fp='' @ fingerprint (manual c) @
      ''&sni='' @ form_urlencode (sni (manual c)) @
      ''&sid='' @ form_urlencode (shortId (manual c)) @
      ''&flow='' @ flow_m (manual c) @ ''#'' @ encodeURIComponent (name user)"
proof -
  have g: "generateVlessUri user serverConfig inbound = Inr (uri c)"
    using c by (rule clientConfigOf_fields)
  then have p: "protocol inbound = vless" "tlsType inbound = reality"
    by (auto simp: generateVlessUri_def split: if_splits)
  have m: "manual c = manualOf user serverConfig inbound"
    using c by (rule clientConfigOf_fields)
  from ne obtain sn sns sid sids where l: "serverNames r = sn # sns" "shortIds r = sid # sids"
    by (cases "serverNames r"; cases "shortIds r") auto
  from generateVlessUri_supported [OF p r, of user serverConfig] g
  show ?thesis
    by (simp add: m manualOf_def r l first_as_string_def first_or_empty_def)
qed

text \<open>
  C9 (as amended). When every inbound of the server config has protocol vless, tlsType
  reality and a reality block, \<open>generateClientConfig\<close> returns exactly one descriptor per
  inbound, in order, each with the user's id, the inbound's protocol and the manual map of
  that inbound; and when the inbound's \<open>serverNames\<close> and \<open>shortIds\<close> are not empty, the
  descriptor's \<open>uri\<close> is the URI assembled from the fields of its own manual map
  (\<open>uuid\<close>, \<open>address\<close>, \<open>port\<close>, \<open>security\<close>, \<open>publicKey\<close>, \<open>fingerprint\<close>,
  \<open>sni\<close>, \<open>shortId\<close>, \<open>flow\<close>), the key, server name and short id form-urlencoded,
  followed by the percent-encoded user name. When some inbound is of another kind,
  \<open>generateClientConfig\<close> throws and returns no descriptor.
\<close>

theorem generateClientConfig_descriptors:
  "(list_all supported (inbounds serverConfig) \<longrightarrow>
     (\<exists>cs. generateClientConfig user serverConfig = Inr cs \<and>
        length cs = length (inbounds serverConfig) \<and>
        (\<forall>k < length cs.
           userId (cs ! k) = id_u user \<and>
           protocol_c (cs ! k) = protocol (inbounds serverConfig ! k) \<and>
           manual (cs ! k) = manualOf user serverConfig (inbounds serverConfig ! k) \<and>
           (\<forall>r. reality_i (inbounds serverConfig ! k) = Some r \<and>
                serverNames r \<noteq> [] \<and> shortIds r \<noteq> [] \<longrightarrow>
              uri (cs ! k) =
                ''vless://'' @ uuid_m (manual (cs ! k)) @ ''@'' @ address (manual (cs ! k)) @ '':'' @
                show_nat (port_m (manual (cs ! k))) @
                ''?type=tcp&security='' @ security (manual (cs ! k)) @
                ''&pbk='' @ form_urlencode (publicKey_m (manual (cs ! k))) @
                ''&fp='' @ fingerprint (manual (cs ! k)) @
                ''&sni='' @ form_urlencode (sni (manual (cs ! k))) @
                ''&sid='' @ form_urlencode (shortId (manual (cs ! k))) @
                ''&flow='' @ flow_m (manual (cs ! k)) @ ''#'' @ encodeURIComponent (name user))))) \<and>
   (\<not> list_all supported (inbounds serverConfig) \<longrightarrow>
     (\<exists>e. generateClientConfig user serverConfig = Inl e))"
proof (intro conjI impI)
  assume all: "list_all supported (inbounds serverConfig)"
  let ?f = "clientConfigOf user serverConfig"
  let ?xs = "inbounds serverConfig"
  have "\<forall>x \<in> set ?xs. \<exists>y. ?f x = Inr y"
  proof
    fix x assume "x \<in> set ?xs"
    with all have "supported x" by (simp add: list_all_iff)
    then obtain r where "protocol x = vless" "tlsType x = reality" "reality_i x = Some r"
      by (auto simp: supported_def)
    then show "\<exists>y. ?f x = Inr y" by (rule clientConfigOf_supported)
  qed
  from mapThrowing_Inr [OF this] obtain cs where cs: "mapThrowing ?f ?xs = Inr cs"
    "length cs = length ?xs" "\<forall>k < length ?xs. ?f (?xs ! k) = Inr (cs ! k)"
    by blast
  have "\<forall>k < length cs.
           userId (cs ! k) = id_u user \<and>
           protocol_c (cs ! k) = protocol (?xs ! k) \<and>
           manual (cs ! k) = manualOf user serverConfig (?xs ! k) \<and>
           (\<forall>r. reality_i (?xs ! k) = Some r \<and> serverNames r \<noteq> [] \<and> shortIds r \<noteq> [] \<longrightarrow>
              uri (cs ! k) =
                ''vless://'' @ uuid_m (manual (cs ! k)) @ ''@'' @ address (manual (cs ! k)) @ '':'' @
                show_nat (port_m (manual (cs ! k))) @
                ''?type=tcp&security='' @ security (manual (cs ! k)) @
                ''&pbk='' @ form_urlencode (publicKey_m (manual (cs ! k))) @
                ''&fp='' @ fingerprint (manual (cs ! k)) @
                ''&sni='' @ form_urlencode (sni (manual (cs ! k))) @
                ''&sid='' @ form_urlencode (shortId (manual (cs ! k))) @
                ''&flow='' @ flow_m (manual (cs ! k)) @ ''#'' @ encodeURIComponent (name user))"
  proof (intro allI impI)
    fix k assume "k < length cs"
    with cs have c: "?f (?xs ! k) = Inr (cs ! k)" by simp
    show "userId (cs ! k) = id_u user \<and>
           protocol_c (cs ! k) = protocol (?xs ! k) \<and>
           manual (cs ! k) = manualOf user serverConfig (?xs ! k) \<and>
           (\<forall>r. reality_i (?xs ! k) = Some r \<and> serverNames r \<noteq> [] \<and> shortIds r \<noteq> [] \<longrightarrow>
              uri (cs ! k) =
                ''vless://'' @ uuid_m (manual (cs ! k)) @ ''@'' @ address (manual (cs ! k)) @ '':'' @
                show_nat (port_m (manual (cs ! k))) @
                ''?type=tcp&security='' @ security (manual (cs ! k)) @
                ''&pbk='' @ form_urlencode (publicKey_m (manual (cs ! k))) @
                ''&fp='' @ fingerprint (manual (cs ! k)) @
                ''&sni='' @ form_urlencode (sni (manual (cs ! k))) @
                ''&sid='' @ form_urlencode (shortId (manual (cs ! k))) @
                ''&flow='' @ flow_m (manual (cs ! k)) @ ''#'' @ encodeURIComponent (name user))"
      using clientConfigOf_fields(1-3) [OF c] clientConfigOf_uri_manual [OF c]
      by blast
  qed
  with cs(1,2) show "\<exists>cs. generateClientConfig user serverConfig = Inr cs \<and>
        length cs = length ?xs \<and>
        (\<forall>k < length cs.
           userId (cs ! k) = id_u user \<and>
           protocol_c (cs ! k) = protocol (?xs ! k) \<and>
           manual (cs ! k) = manualOf user serverConfig (?xs ! k) \<and>
           (\<forall>r. reality_i (?xs ! k) = Some r \<and> serverNames r \<noteq> [] \<and> shortIds r \<noteq> [] \<longrightarrow>
              uri (cs ! k) =
                ''vless://'' @ uuid_m (manual (cs ! k)) @ ''@'' @ address (manual (cs ! k)) @ '':'' @
                show_nat (port_m (manual (cs ! k))) @
                ''?type=tcp&security='' @ security (manual (cs ! k)) @
                ''&pbk='' @ form_urlencode (publicKey_m (manual (cs ! k))) @
                ''&fp='' @ fingerprint (manual (cs ! k)) @
                ''&sni='' @ form_urlencode (sni (manual (cs ! k))) @
                ''&sid='' @ form_urlencode (shortId (manual (cs ! k))) @
                ''&flow='' @ flow_m (manual (cs ! k)) @ ''#'' @ encodeURIComponent (name user)))"
    unfolding generateClientConfig_def by blast
next
  assume "\<not> list_all supported (inbounds serverConfig)"
  then obtain x where x: "x \<in> set (inbounds serverConfig)" "\<not> supported x"
    by (auto simp: list_all_iff)
  then have "\<exists>e. generateVlessUri user serverConfig x = Inl e"
    by (auto simp: supported_def generateVlessUri_def)
  then obtain e where "clientConfigOf user serverConfig x = Inl e"
    by (auto simp: clientConfigOf_def)
  from mapThrowing_Inl [where f = "clientConfigOf user serverConfig", OF x(1) this]
  show "\<exists>e. generateClientConfig user serverConfig = Inl e"
    by (simp add: generateClientConfig_def)
qed


theorem generateClientConfig_descriptors_witness:
  "(\<exists>cs. generateClientConfig ex_alice ex_server = Inr cs \<and> length cs = 1 \<and>
      userId (cs ! 0) = ''a1'' \<and> protocol_c (cs ! 0) = vless \<and>
      sni (manual (cs ! 0)) = ''www.google.com'' \<and>
      publicKey_m (manual (cs ! 0)) = ''cHVibGljLWtleQ'' \<and>
      shortId (manual (cs ! 0)) = ''0a1b2c3d'' \<and>
      uri (cs ! 0) = ''vless://a1@203.0.113.5:443?type=tcp&security=reality&pbk=cHVibGljLWtleQ&fp=chrome&sni=www.google.com&sid=0a1b2c3d&flow=xtls-rprx-vision#alice'') \<and>
   (\<exists>e. generateClientConfig ex_alice ex_server_mixed = Inl e)"
proof -
  have a: "list_all supported (inbounds ex_server)"
    by code_simp
  have b: "\<not> list_all supported (inbounds ex_server_mixed)"
    by code_simp
  have i: "inbounds ex_server ! 0 = ex_inbound" "length (inbounds ex_server) = 1"
    by (simp_all add: ex_server_def)
  have r: "reality_i ex_inbound = Some ex_reality \<and> serverNames ex_reality \<noteq> [] \<and>
           shortIds ex_reality \<noteq> []"
    by (simp add: ex_inbound_def ex_reality_def)
  have m: "manualOf ex_alice ex_server ex_inbound =
           \<lparr>address = ''203.0.113.5'', port_m = 443, uuid_m = ''a1'',
            flow_m = ''xtls-rprx-vision'', security = ''reality'',
            sni = ''www.google.com'', fingerprint = ''chrome'',
            publicKey_m = ''cHVibGljLWtleQ'', shortId = ''0a1b2c3d''\<rparr>"
    by code_simp
  have v: "''vless://'' @ ''a1'' @ ''@'' @ ''203.0.113.5'' @ '':'' @ show_nat 443 @
           ''?type=tcp&security='' @ ''reality'' @
           ''&pbk='' @ form_urlencode ''cHVibGljLWtleQ'' @
           ''&fp='' @ ''chrome'' @
           ''&sni='' @ form_urlencode ''www.google.com'' @
           ''&sid='' @ form_urlencode ''0a1b2c3d'' @
           ''&flow='' @ ''xtls-rprx-vision'' @ ''#'' @ encodeURIComponent (name ex_alice) =
           ''vless://a1@203.0.113.5:443?type=tcp&security=reality&pbk=cHVibGljLWtleQ&fp=chrome&sni=www.google.com&sid=0a1b2c3d&flow=xtls-rprx-vision#alice''"
    by code_simp
  from generateClientConfig_descriptors [of ex_server ex_alice] a
  obtain cs where cs: "generateClientConfig ex_alice ex_server = Inr cs"
    "length cs = length (inbounds ex_server)"
    "\<forall>k < length cs.
       userId (cs ! k) = id_u ex_alice \<and>
       protocol_c (cs ! k) = protocol (inbounds ex_server ! k) \<and>
       manual (cs ! k) = manualOf ex_alice ex_server (inbounds ex_server ! k) \<and>
       (\<forall>r. reality_i (inbounds ex_server ! k) = Some r \<and>
            serverNames r \<noteq> [] \<and> shortIds r \<noteq> [] \<longrightarrow>
          uri (cs ! k) =
            ''vless://'' @ uuid_m (manual (cs ! k)) @ ''@'' @ address (manual (cs ! k)) @ '':'' @
            show_nat (port_m (manual (cs ! k))) @
            ''?type=tcp&security='' @ security (manual (cs ! k)) @
            ''&pbk='' @ form_urlencode (publicKey_m (manual (cs ! k))) @
            ''&fp='' @ fingerprint (manual (cs ! k)) @
            ''&sni='' @ form_urlencode (sni (manual (cs ! k))) @
            ''&sid='' @ form_urlencode (shortId (manual (cs ! k))) @
            ''&flow='' @ flow_m (manual (cs ! k)) @ ''#'' @ encodeURIComponent (name ex_alice))"
    by blast
  have l: "length cs = 1" using cs(2) i(2) by simp
  then have k: "0 < length cs" by simp
  from cs(3) k have f: "userId (cs ! 0) = id_u ex_alice"
    "protocol_c (cs ! 0) = protocol ex_inbound"
    "manual (cs ! 0) = manualOf ex_alice ex_server ex_inbound"
    unfolding i(1) [symmetric] by blast+
  from cs(3) k r have u: "uri (cs ! 0) =
            ''vless://'' @ uuid_m (manual (cs ! 0)) @ ''@'' @ address (manual (cs ! 0)) @ '':'' @
            show_nat (port_m (manual (cs ! 0))) @
            ''?type=tcp&security='' @ security (manual (cs ! 0)) @
            ''&pbk='' @ form_urlencode (publicKey_m (manual (cs ! 0))) @
            ''&fp='' @ fingerprint (manual (cs ! 0)) @
            ''&sni='' @ form_urlencode (sni (manual (cs ! 0))) @
            ''&sid='' @ form_urlencode (shortId (manual (cs ! 0))) @
            ''&flow='' @ flow_m (manual (cs ! 0)) @ ''#'' @ encodeURIComponent (name ex_alice)"
    unfolding i(1) [symmetric] by blast
  have u': "uri (cs ! 0) = ''vless://a1@203.0.113.5:443?type=tcp&security=reality&pbk=cHVibGljLWtleQ&fp=chrome&sni=www.google.com&sid=0a1b2c3d&flow=xtls-rprx-vision#alice''"
    using u unfolding f(3) m by (simp only: v SingboxUser.simps Manual.simps)
  have first: "\<exists>cs. generateClientConfig ex_alice ex_server = Inr cs \<and> length cs = 1 \<and>
      userId (cs ! 0) = ''a1'' \<and> protocol_c (cs ! 0) = vless \<and>
      sni (manual (cs ! 0)) = ''www.google.com'' \<and>
      publicKey_m (manual (cs ! 0)) = ''cHVibGljLWtleQ'' \<and>
      shortId (manual (cs ! 0)) = ''0a1b2c3d'' \<and>
      uri (cs ! 0) = ''vless://a1@203.0.113.5:443?type=tcp&security=reality&pbk=cHVibGljLWtleQ&fp=chrome&sni=www.google.com&sid=0a1b2c3d&flow=xtls-rprx-vision#alice''"
  proof -
    have ids: "id_u ex_alice = ''a1''" "protocol ex_inbound = vless"
      by (simp_all add: ex_alice_def ex_inbound_def)
    have mm: "manual (cs ! 0) =
           \<lparr>address = ''203.0.113.5'', port_m = 443, uuid_m = ''a1'',
            flow_m = ''xtls-rprx-vision'', security = ''reality'',
            sni = ''www.google.com'', fingerprint = ''chrome'',
            publicKey_m = ''cHVibGljLWtleQ'', shortId = ''0a1b2c3d''\<rparr>"
      using f(3) m by simp
    show ?thesis
      by (rule exI [of _ cs]) (simp add: cs(1) l f(1,2) ids u' mm)
  qed
  from generateClientConfig_descriptors [of ex_server_mixed ex_alice] b
  have "\<exists>e. generateClientConfig ex_alice ex_server_mixed = Inl e" by blast
  with first show ?thesis by blast
qed


text \<open>
  A server config with a vless+reality inbound and a vmess inbound: no descriptor list is
  returned, although there are two inbounds.
\<close>

theorem generateClientConfig_counterexample:
  "generateClientConfig ex_alice ex_server_mixed = Inl (Error ''Only VLESS+Reality is supported'') \<and>
   length (inbounds ex_server_mixed) = 2"
  by code_simp


section \<open>Roster operations\<close>

lemma reviveDates_id: "reviveDates u = u"
  by (cases u) (simp add: reviveDates_def split: option.splits)

lemma map_reviveDates: "map reviveDates us = us"
  by (induction us) (simp_all add: reviveDates_id)

lemma loadState_existing: "stateFile m = Some st \<Longrightarrow> loadState m = Inr (m\<lparr>state := st\<rparr>)"
  by (simp add: loadState_def map_reviveDates)

lemma findIndex_None: "findIndex P xs = None \<longleftrightarrow> \<not> list_ex P xs"
  by (induction xs) auto

lemma findIndex_Some:
  "findIndex P xs = Some i \<Longrightarrow> i < length xs \<and> P (xs ! i) \<and> (\<forall>j < i. \<not> P (xs ! j))"
proof (induction xs arbitrary: i)
  case Nil
  then show ?case by simp
next
  case (Cons x xs)
  show ?case
  proof (cases "P x")
    case True
    with Cons.prems show ?thesis by simp
  next
    case False
    with Cons.prems obtain k where k: "findIndex P xs = Some k" "i = Suc k"
      by auto
    from Cons.IH [OF k(1)] False k(2) show ?thesis
      by (auto simp: nth_Cons split: nat.splits)
  qed
qed

lemma findIndex_ex: "list_ex P xs \<Longrightarrow> \<exists>i. findIndex P xs = Some i"
  using findIndex_None [of P xs] by (cases "findIndex P xs") auto

text \<open>
  C7. When the state file exists, \<open>initialize\<close> loads it: the in-memory state becomes the
  persisted one, so the server config with its Reality keys and the roster are those of the
  file, and neither file is written; the host, port and freshly generated key material passed
  to the call are not used. Calling \<open>initialize\<close> again after any successful
  \<open>initialize\<close> changes nothing.
\<close>

theorem initialize_existing_state:
  "(\<forall>st. stateFile m = Some st \<longrightarrow>
      (\<exists>m'. initialize m h port_arg kp rnd = Inr m' \<and>
         state m' = st \<and> server (state m') = server st \<and> users (state m') = users st \<and>
         stateFile m' = stateFile m \<and> configFile m' = configFile m)) \<and>
   (\<forall>m1. initialize m h port_arg kp rnd = Inr m1 \<longrightarrow>
      initialize m1 h' port_arg' kp' rnd' = Inr m1)"
proof (intro conjI allI impI)
  fix st assume "stateFile m = Some st"
  then have "initialize m h port_arg kp rnd = Inr (m\<lparr>state := st\<rparr>)"
    by (simp add: initialize_def loadState_existing)
  then show "\<exists>m'. initialize m h port_arg kp rnd = Inr m' \<and>
         state m' = st \<and> server (state m') = server st \<and> users (state m') = users st \<and>
         stateFile m' = stateFile m \<and> configFile m' = configFile m"
    by simp
next
  fix m1 assume i: "initialize m h port_arg kp rnd = Inr m1"
  have "stateFile m1 = Some (state m1)"
  proof (cases "stateFile m")
    case None
    with i show ?thesis
      by (auto simp: initialize_def saveState_def regenerateConfig_def)
  next
    case (Some st)
    with i show ?thesis
      by (auto simp: initialize_def loadState_existing)
  qed
  then show "initialize m1 h' port_arg' kp' rnd' = Inr m1"
    by (simp add: initialize_def loadState_existing)
qed

theorem initialize_existing_state_witness:
  "initialize ex_runtime ''198.51.100.7'' (Some 8443) ex_keys ex_rnd = Inr ex_runtime \<and>
   (\<exists>m1. initialize (newUserManager None None) ''203.0.113.5'' None ex_keys ex_rnd = Inr m1 \<and>
      initialize m1 ''198.51.100.7'' (Some 8443) \<lparr>privateKey_k = ''x'', publicKey_k = ''y''\<rparr> (\<lambda>k. ''ff'') = Inr m1)"
proof -
  have s: "stateFile ex_runtime = Some ex_state" "state ex_runtime = ex_state"
    by (simp_all add: ex_runtime_def)
  from initialize_existing_state [of ex_runtime "''198.51.100.7''" "Some 8443" ex_keys ex_rnd] s(1)
  obtain m' where m': "initialize ex_runtime ''198.51.100.7'' (Some 8443) ex_keys ex_rnd = Inr m'"
    "state m' = ex_state" "stateFile m' = stateFile ex_runtime" "configFile m' = configFile ex_runtime"
    by blast
  have "m' = ex_runtime"
    using m'(2-4) s by (cases m', cases ex_runtime) simp
  with m'(1) have first: "initialize ex_runtime ''198.51.100.7'' (Some 8443) ex_keys ex_rnd = Inr ex_runtime"
    by simp
  obtain m1 where m1: "initialize (newUserManager None None) ''203.0.113.5'' None ex_keys ex_rnd = Inr m1"
    by (simp add: initialize_def newUserManager_def)
  from initialize_existing_state [of "newUserManager None None" "''203.0.113.5''" None ex_keys ex_rnd
      "''198.51.100.7''" "Some 8443" "\<lparr>privateKey_k = ''x'', publicKey_k = ''y''\<rparr>" "\<lambda>k. ''ff''"] m1
  have "initialize m1 ''198.51.100.7'' (Some 8443) \<lparr>privateKey_k = ''x'', publicKey_k = ''y''\<rparr> (\<lambda>k. ''ff'') = Inr m1"
    by blast
  with first m1 show ?thesis by blast
qed

text \<open>
  C10. When some user matches \<open>nameOrId\<close> by name or id, \<open>setUserEnabled\<close> returns true
  and the roster differs from the old one only at the first matching position, where only
  the \<open>enabled\<close> flag is replaced: length and order, the other fields of that user, every
  other user, the server config and the descriptor cache are as before. When no user
  matches it returns false and leaves the whole runtime as it was.
\<close>

theorem setUserEnabled_frame:
  "(list_ex (matches nameOrId) (users (state m)) \<longrightarrow>
      (\<exists>i m'. setUserEnabled m nameOrId en = (True, m') \<and>
         i < length (users (state m)) \<and> matches nameOrId (users (state m) ! i) \<and>
         (\<forall>j < i. \<not> matches nameOrId (users (state m) ! j)) \<and>
         users (state m') = (users (state m))[i := (users (state m) ! i)\<lparr>enabled := en\<rparr>] \<and>
         length (users (state m')) = length (users (state m)) \<and>
         (\<forall>k < length (users (state m)). k \<noteq> i \<longrightarrow> users (state m') ! k = users (state m) ! k) \<and>
         enabled (users (state m') ! i) = en \<and>
         id_u (users (state m') ! i) = id_u (users (state m) ! i) \<and>
         name (users (state m') ! i) = name (users (state m) ! i) \<and>
         email (users (state m') ! i) = email (users (state m) ! i) \<and>
         createdAt (users (state m') ! i) = createdAt (users (state m) ! i) \<and>
         expiresAt (users (state m') ! i) = expiresAt (users (state m) ! i) \<and>
         trafficLimit (users (state m') ! i) = trafficLimit (users (state m) ! i) \<and>
         trafficUsed (users (state m') ! i) = trafficUsed (users (state m) ! i) \<and>
         server (state m') = server (state m) \<and>
         clientConfigs (state m') = clientConfigs (state m) \<and>
         version (state m') = version (state m))) \<and>
   (\<not> list_ex (matches nameOrId) (users (state m)) \<longrightarrow>
      setUserEnabled m nameOrId en = (False, m))"
proof (intro conjI impI)
  assume "list_ex (matches nameOrId) (users (state m))"
  then obtain i where i: "findIndex (matches nameOrId) (users (state m)) = Some i"
    using findIndex_ex by blast
  note p = findIndex_Some [OF i]
  let ?m' = "regenerateConfig (saveState
             (m\<lparr>state := (state m)
                  \<lparr>users := (users (state m))[i := (users (state m) ! i)\<lparr>enabled := en\<rparr>]\<rparr>\<rparr>))"
  have r: "setUserEnabled m nameOrId en = (True, ?m')"
    by (simp add: setUserEnabled_def i)
  have u: "users (state ?m') = (users (state m))[i := (users (state m) ! i)\<lparr>enabled := en\<rparr>]"
    "server (state ?m') = server (state m)" "clientConfigs (state ?m') = clientConfigs (state m)"
    "version (state ?m') = version (state m)"
    by (simp_all add: regenerateConfig_def saveState_def)
  show "\<exists>i m'. setUserEnabled m nameOrId en = (True, m') \<and>
         i < length (users (state m)) \<and> matches nameOrId (users (state m) ! i) \<and>
         (\<forall>j < i. \<not> matches nameOrId (users (state m) ! j)) \<and>
         users (state m') = (users (state m))[i := (users (state m) ! i)\<lparr>enabled := en\<rparr>] \<and>
         length (users (state m')) = length (users (state m)) \<and>
         (\<forall>k < length (users (state m)). k \<noteq> i \<longrightarrow> users (state m') ! k = users (state m) ! k) \<and>
         enabled (users (state m') ! i) = en \<and>
         id_u (users (state m') ! i) = id_u (users (state m) ! i) \<and>
         name (users (state m') ! i) = name (users (state m) ! i) \<and>
         email (users (state m') ! i) = email (users (state m) ! i) \<and>
         createdAt (users (state m') ! i) = createdAt (users (state m) ! i) \<and>
         expiresAt (users (state m') ! i) = expiresAt (users (state m) ! i) \<and>
         trafficLimit (users (state m') ! i) = trafficLimit (users (state m) ! i) \<and>
         trafficUsed (users (state m') ! i) = trafficUsed (users (state m) ! i) \<and>
         server (state m') = server (state m) \<and>
         clientConfigs (state m') = clientConfigs (state m) \<and>
         version (state m') = version (state m)"
    apply (rule exI [of _ i], rule exI [of _ ?m'])
    using p by (simp add: r u)
next
  assume "\<not> list_ex (matches nameOrId) (users (state m))"
  then have "findIndex (matches nameOrId) (users (state m)) = None"
    by (simp add: findIndex_None)
  then show "setUserEnabled m nameOrId en = (False, m)"
    by (simp add: setUserEnabled_def)
qed

theorem setUserEnabled_frame_witness:
  "(\<exists>m'. setUserEnabled ex_runtime ''b2'' True = (True, m') \<and>
      users (state m') = [ex_alice, ex_bob\<lparr>enabled := True\<rparr>] \<and>
      server (state m') = ex_server \<and> clientConfigs (state m') = [ex_desc_alice, ex_desc_bob]) \<and>
   setUserEnabled ex_runtime ''nobody'' True = (False, ex_runtime)"
proof -
  have us: "users (state ex_runtime) = [ex_alice, ex_bob]" "server (state ex_runtime) = ex_server"
    "clientConfigs (state ex_runtime) = [ex_desc_alice, ex_desc_bob]"
    by (simp_all add: ex_runtime_def ex_state_def)
  have a: "list_ex (matches ''b2'') (users (state ex_runtime))"
    unfolding us by (simp add: matches_def ex_bob_def)
  have b: "\<not> list_ex (matches ''nobody'') (users (state ex_runtime))"
    unfolding us by (simp add: matches_def ex_bob_def ex_alice_def)
  have n0: "\<not> matches ''b2'' ex_alice"
    by (simp add: matches_def ex_alice_def)
  from setUserEnabled_frame [of "''b2''" ex_runtime True] a
  obtain i m' where m': "setUserEnabled ex_runtime ''b2'' True = (True, m')"
    "i < length (users (state ex_runtime))" "matches ''b2'' (users (state ex_runtime) ! i)"
    "users (state m') = (users (state ex_runtime))[i := (users (state ex_runtime) ! i)\<lparr>enabled := True\<rparr>]"
    "server (state m') = server (state ex_runtime)"
    "clientConfigs (state m') = clientConfigs (state ex_runtime)"
    by blast
  from m'(2,3) n0 have "i = 1"
    unfolding us by (cases i) auto
  with m'(4) have "users (state m') = [ex_alice, ex_bob\<lparr>enabled := True\<rparr>]"
    unfolding us by simp
  with m'(1,5,6) have first: "\<exists>m'. setUserEnabled ex_runtime ''b2'' True = (True, m') \<and>
      users (state m') = [ex_alice, ex_bob\<lparr>enabled := True\<rparr>] \<and>
      server (state m') = ex_server \<and> clientConfigs (state m') = [ex_desc_alice, ex_desc_bob]"
    unfolding us by blast
  from setUserEnabled_frame [of "''nobody''" ex_runtime True] b
  have "setUserEnabled ex_runtime ''nobody'' True = (False, ex_runtime)" by blast
  with first show ?thesis by blast
qed


section \<open>Reset\<close>

lemma http_reset_server_and_roster:
  "\<exists>m'. http_reset m env_host env_port kp rnd =
             ((200, SuccessMessage ''Server reset, new keys generated''), m') \<and>
     server (state m') =
       generateDefaultServerConfig
         (case env_host of None \<Rightarrow> ''0.0.0.0'' | Some s \<Rightarrow> if s = [] then ''0.0.0.0'' else s)
         (Some env_port) kp rnd \<and>
     (\<exists>ib r. inbounds (server (state m')) = [ib] \<and> reality_i ib = Some r \<and>
        privateKey r = privateKey_k kp \<and> publicKey r = publicKey_k kp \<and>
        shortIds r = [rnd 0, rnd 1, rnd 2, rnd 3]) \<and>
     users (state m') = [] \<and>
     stateFile m' = Some (state m') \<and>
     configFile m' = Some (toSingboxConfig (server (state m')) [])"
proof -
  have n: "[0..<4] = [0, 1, 2, 3::nat]"
    by (simp add: upt_rec)
  show ?thesis
    by (simp add: http_reset_def Let_def updateSingboxConfig_def saveState_def
        generateDefaultServerConfig_def generateRealityConfig_def generateShortIds_def n)
qed

text \<open>
  C2. The reset handler regenerates the server config from the key pair and short ids just
  drawn from the key provider and empties the roster (\<open>http_reset_server_and_roster\<close>),
  but it never assigns the descriptor cache: on a state with the users alice and bob and
  their two descriptors, reset answers 200 and leaves an empty roster, and both descriptors,
  built with the key that was just replaced, are still in the cache in memory and in the
  state file. \<open>UserManager.removeUser\<close> drops the descriptors of a user it removes.
\<close>

theorem http_reset_keeps_descriptors:
  "fst (http_reset ex_runtime None 443 ex_keys ex_rnd) =
     (200, SuccessMessage ''Server reset, new keys generated'') \<and>
   users (state (snd (http_reset ex_runtime None 443 ex_keys ex_rnd))) = [] \<and>
   clientConfigs (state ex_runtime) = [ex_desc_alice, ex_desc_bob] \<and>
   clientConfigs (state (snd (http_reset ex_runtime None 443 ex_keys ex_rnd))) =
     [ex_desc_alice, ex_desc_bob] \<and>
   map_option clientConfigs (stateFile (snd (http_reset ex_runtime None 443 ex_keys ex_rnd))) =
     Some [ex_desc_alice, ex_desc_bob] \<and>
   clientConfigs (state (snd (http_reset ex_runtime None 443 ex_keys ex_rnd))) \<noteq> []"
  by (simp add: http_reset_def Let_def updateSingboxConfig_def saveState_def ex_runtime_def ex_state_def)

section \<open>Adding users\<close>

lemma addUser_duplicate:
  "list_ex (\<lambda>u. name u = nm) (users (state m)) \<Longrightarrow>
   addUser m nm options new_id now =
     (Inl (Error (''User '' @ [CHR 0x22] @ nm @ [CHR 0x22] @ '' already exists'')), m)"
  by (simp add: addUser_def)

lemma addUser_success:
  assumes "\<not> list_ex (\<lambda>u. name u = nm) (users (state m))"
    and "addUser m nm options new_id now = (Inr (user, configs), m')"
  shows "user = newUser nm options new_id now" "id_u user = new_id" "name user = nm"
    "users (state m') = users (state m) @ [user]"
    "clientConfigs (state m') = clientConfigs (state m) @ configs"
    "server (state m') = server (state m)"
    "new_id \<notin> set (map id_u (users (state m))) \<Longrightarrow> distinct (map id_u (users (state m))) \<Longrightarrow>
       distinct (map id_u (users (state m')))"
  using assms
  by (auto simp: addUser_def Let_def newUser_def regenerateConfig_def saveState_def
      split: sum.splits)

text \<open>
  C5. \<open>UserManager.addUser\<close> rejects a name that is already on the roster and leaves the
  runtime untouched (\<open>addUser_duplicate\<close>). The HTTP handler for \<open>POST /api/users\<close>
  has no such check: on a roster that already has a user named alice, a request with the
  name alice is answered 200 and a second user named alice is appended to the roster in
  memory and in the state file.
\<close>

theorem http_post_users_duplicate_name:
  "list_ex (\<lambda>u. name u = ''alice'') (users (state ex_runtime)) \<and>
   fst (fst (http_post_users ex_runtime (Some ''alice'') ''z9'' 5000)) = 200 \<and>
   map name (users (state (snd (http_post_users ex_runtime (Some ''alice'') ''z9'' 5000)))) =
     [''alice'', ''bob'', ''alice''] \<and>
   map_option (\<lambda>st. map name (users st)) (stateFile (snd (http_post_users ex_runtime (Some ''alice'') ''z9'' 5000))) =
     Some [''alice'', ''bob'', ''alice''] \<and>
   fst (addUser ex_runtime ''alice'' None ''z9'' 5000) =
     Inl (Error (''User '' @ [CHR 0x22] @ ''alice'' @ [CHR 0x22] @ '' already exists'')) \<and>
   snd (addUser ex_runtime ''alice'' None ''z9'' 5000) = ex_runtime"
  by code_simp

section \<open>Removing users\<close>

lemma removeUser_not_found:
  "\<not> list_ex (matches nameOrId) (users (state m)) \<Longrightarrow> removeUser m nameOrId = (False, m)"
  by (simp add: removeUser_def findIndex_None [symmetric])

lemma distinct_remove_nth:
  assumes "distinct (map f xs)" and "i < length xs"
  shows "\<forall>u \<in> set (take i xs @ drop (Suc i) xs). f u \<noteq> f (xs ! i)"
proof -
  have "xs = take i xs @ xs ! i # drop (Suc i) xs"
    using assms(2) by (simp add: id_take_nth_drop)
  then have "distinct (map f (take i xs @ xs ! i # drop (Suc i) xs))"
    using assms(1) by simp
  then have "f (xs ! i) \<notin> f ` set (take i xs)" "f (xs ! i) \<notin> f ` set (drop (Suc i) xs)"
    by auto
  then show ?thesis
    by (metis Un_iff image_eqI set_append)
qed

lemma removeUser_cascade:
  assumes "list_ex (matches nameOrId) (users (state m))"
  shows "\<exists>i m'. removeUser m nameOrId = (True, m') \<and>
     i < length (users (state m)) \<and> matches nameOrId (users (state m) ! i) \<and>
     (\<forall>j < i. \<not> matches nameOrId (users (state m) ! j)) \<and>
     users (state m') = take i (users (state m)) @ drop (Suc i) (users (state m)) \<and>
     clientConfigs (state m') =
       filter (\<lambda>c. userId c \<noteq> id_u (users (state m) ! i)) (clientConfigs (state m)) \<and>
     (\<forall>c \<in> set (clientConfigs (state m')). userId c \<noteq> id_u (users (state m) ! i)) \<and>
     (distinct (map id_u (users (state m))) \<longrightarrow>
        (\<forall>u \<in> set (users (state m')). id_u u \<noteq> id_u (users (state m) ! i)))"
proof -
  from assms obtain i where i: "findIndex (matches nameOrId) (users (state m)) = Some i"
    using findIndex_ex by blast
  note p = findIndex_Some [OF i]
  let ?m' = "regenerateConfig (saveState
                (m\<lparr>state := (state m)
                     \<lparr>users := take i (users (state m)) @ drop (Suc i) (users (state m)),
                      clientConfigs := filter (\<lambda>c. userId c \<noteq> id_u (users (state m) ! i)) (clientConfigs (state m))\<rparr>\<rparr>))"
  have r: "removeUser m nameOrId = (True, ?m')"
    by (simp add: removeUser_def i)
  have u: "users (state ?m') = take i (users (state m)) @ drop (Suc i) (users (state m))"
    "clientConfigs (state ?m') =
       filter (\<lambda>c. userId c \<noteq> id_u (users (state m) ! i)) (clientConfigs (state m))"
    by (simp_all add: regenerateConfig_def saveState_def)
  have d: "distinct (map id_u (users (state m))) \<longrightarrow>
        (\<forall>u \<in> set (users (state ?m')). id_u u \<noteq> id_u (users (state m) ! i))"
    using distinct_remove_nth [of id_u "users (state m)" i] p unfolding u by blast
  show ?thesis
    apply (rule exI [of _ i], rule exI [of _ ?m'])
    using p d by (simp add: r u)
qed

text \<open>
  C6. \<open>UserManager.removeUser\<close> removes the first user matching by name or id together
  with every descriptor carrying that user's id (\<open>removeUser_cascade\<close>), and reports
  false on an unchanged runtime when nobody matches (\<open>removeUser_not_found\<close>). The HTTP
  handler for \<open>DELETE /api/users/:id\<close> removes the user only: after deleting alice by id
  her descriptor is still in the descriptor cache, in memory and in the state file.
\<close>

theorem http_delete_user_keeps_descriptors:
  "fst (http_delete_user ex_runtime ''a1'') = (200, Success) \<and>
   users (state (snd (http_delete_user ex_runtime ''a1''))) = [ex_bob] \<and>
   clientConfigs (state (snd (http_delete_user ex_runtime ''a1''))) = [ex_desc_alice, ex_desc_bob] \<and>
   userId ex_desc_alice = id_u ex_alice \<and>
   map_option clientConfigs (stateFile (snd (http_delete_user ex_runtime ''a1''))) =
     Some [ex_desc_alice, ex_desc_bob] \<and>
   clientConfigs (state (snd (removeUser ex_runtime ''a1''))) = [ex_desc_bob]"
  by (simp add: http_delete_user_def removeUser_def Let_def updateSingboxConfig_def saveState_def
      regenerateConfig_def ex_runtime_def ex_state_def ex_alice_def ex_bob_def matches_def
      ex_desc_alice_def ex_desc_bob_def)

section \<open>Operations before initialisation\<close>

text \<open>
  C8 (as amended). The operations of a \<open>UserManager\<close> do not check that a state was loaded.
  On a freshly constructed manager with no state file they work on the constructor's empty
  state: \<open>addUser\<close> succeeds, returns the new user with no descriptors and writes the state
  and configuration files; \<open>removeUser\<close> and \<open>setUserEnabled\<close> return false and change
  nothing; the read operations return empty results. The "not initialized" condition is
  raised by the commands \<open>user:add\<close>, \<open>user:remove\<close>, \<open>user:list\<close> and \<open>user:show\<close>
  of the command line, which load the state file first and exit with status 1 and the
  message "Manager not initialized" when that fails.
\<close>

theorem uninitialized_manager_operations:
  "addUser (newUserManager None cf) nm options new_id now =
     (Inr (newUser nm options new_id now, []),
      \<lparr>state = emptyState\<lparr>users := [newUser nm options new_id now]\<rparr>,
       stateFile = Some (emptyState\<lparr>users := [newUser nm options new_id now]\<rparr>),
       configFile = Some (toSingboxConfig (server emptyState) [newUser nm options new_id now])\<rparr>) \<and>
   removeUser (newUserManager None cf) nameOrId = (False, newUserManager None cf) \<and>
   setUserEnabled (newUserManager None cf) nameOrId en = (False, newUserManager None cf) \<and>
   getUsers (newUserManager None cf) = [] \<and>
   getUser (newUserManager None cf) nameOrId = None \<and>
   getClientConfigs (newUserManager None cf) nameOrId = [] \<and>
   getPublicKey (newUserManager None cf) = None \<and>
   exportUserConfig (newUserManager None cf) nameOrId = None \<and>
   getStats (newUserManager None cf) = \<lparr>totalUsers = 0, activeUsers = 0, disabledUsers = 0\<rparr> \<and>
   cli_user_add (newUserManager None cf) nm options new_id now =
     (CliExit 1 (''Manager not initialized. Run '' @ [CHR 0x22] @ ''singbox-manager init'' @
                 [CHR 0x22] @ '' first.''), newUserManager None cf) \<and>
   cli_user_remove (newUserManager None cf) nameOrId =
     (CliExit 1 ''Manager not initialized.'', newUserManager None cf) \<and>
   cli_user_list (newUserManager None cf) =
     (CliExit 1 ''Manager not initialized.'', newUserManager None cf) \<and>
   cli_user_show (newUserManager None cf) nameOrId =
     (CliExit 1 ''Manager not initialized.'', newUserManager None cf)"
  by (simp add: addUser_def removeUser_def setUserEnabled_def getUsers_def getUser_def
      getClientConfigs_def getPublicKey_def exportUserConfig_def getStats_def
      cli_user_add_def cli_user_remove_def cli_user_list_def cli_user_show_def loadState_def
      newUserManager_def emptyState_def generateClientConfig_def Let_def
      regenerateConfig_def saveState_def)

text \<open>
  \<open>addUser\<close> on a manager that was constructed and never initialised, with no state file:
  the call succeeds and creates the state file.
\<close>

theorem uninitialized_addUser_counterexample:
  "stateFile (newUserManager None None) = None \<and>
   fst (addUser (newUserManager None None) ''alice'' None ''a1'' 1000) = Inr (ex_alice, []) \<and>
   users (state (snd (addUser (newUserManager None None) ''alice'' None ''a1'' 1000))) = [ex_alice] \<and>
   stateFile (snd (addUser (newUserManager None None) ''alice'' None ''a1'' 1000)) \<noteq> None"
  by (simp add: addUser_def newUserManager_def emptyState_def generateClientConfig_def Let_def
      regenerateConfig_def saveState_def newUser_def ex_alice_def)

end
